theory Spec2Isabelle
  imports Complex_Main "HOL-Library.Word"
begin

section \<open>Values of the program\<close>

text \<open>
  A Python \<open>str\<close> is a sequence of Unicode code points, so a string is a list of
  code points; \<open>ustr\<close> turns an ASCII literal of the source into that form.
  A \<open>bytes\<close> value is a list of octets.
\<close>

type_synonym ustring = "nat list"

type_synonym bytes = "8 word list"

definition ustr :: "string \<Rightarrow> ustring" where
  "ustr s = map of_char s"

text \<open>
  \<open>str.isalnum\<close> and the white space that \<open>str.strip\<close> removes are decided by
  the Unicode tables of the interpreter, which are no part of the program: they are
  taken as a parameter.
\<close>

record unicode_db =
  isalnum :: "nat \<Rightarrow> bool"
  isspace :: "nat \<Rightarrow> bool"

definition lstrip :: "unicode_db \<Rightarrow> ustring \<Rightarrow> ustring" where
  "lstrip db s = dropWhile (isspace db) s"

definition rstrip :: "unicode_db \<Rightarrow> ustring \<Rightarrow> ustring" where
  "rstrip db s = rev (dropWhile (isspace db) (rev s))"

definition strip :: "unicode_db \<Rightarrow> ustring \<Rightarrow> ustring" where
  "strip db s = rstrip db (lstrip db s)"

definition replace_char :: "nat \<Rightarrow> nat \<Rightarrow> ustring \<Rightarrow> ustring" where
  "replace_char old new s = map (\<lambda>c. if c = old then new else c) s"

text \<open>
  The values that \<open>response.json()\<close> can yield and that the result records hold.
  A float is its exact value when finite. A dict is the list of its items in insertion
  order (its keys are distinct).
\<close>

datatype pyfloat = Finite rat | PosInf | NegInf | NaN

datatype pyval =
    PNone
  | PBool bool
  | PInt int
  | PFloat pyfloat
  | PStr ustring
  | PList "pyval list"
  | PDict "(ustring \<times> pyval) list"

type_synonym pydict = "(ustring \<times> pyval) list"

text \<open>Truth value testing, as \<open>if upload_url:\<close> does it.\<close>

fun truthy :: "pyval \<Rightarrow> bool" where
  "truthy PNone = False"
| "truthy (PBool b) = b"
| "truthy (PInt i) = (i \<noteq> 0)"
| "truthy (PFloat (Finite q)) = (q \<noteq> 0)"
| "truthy (PFloat _) = True"
| "truthy (PStr s) = (s \<noteq> [])"
| "truthy (PList xs) = (xs \<noteq> [])"
| "truthy (PDict kv) = (kv \<noteq> [])"

text \<open>\<open>d.get(key)\<close> on a dict.\<close>

definition dict_get :: "pydict \<Rightarrow> ustring \<Rightarrow> pyval" where
  "dict_get kv k = (case map_of kv k of None \<Rightarrow> PNone | Some v \<Rightarrow> v)"

section \<open>The outside world\<close>

text \<open>
  What can be raised: \<open>requests\<close> failing to get a response (no connection, an URL
  it cannot use), \<open>response.json()\<close> on a body that is not JSON, \<open>.get\<close> on a
  value that has no such method, and the file system refusing a write.
\<close>

datatype error = RequestException | JSONDecodeError | AttributeError | OSError

record request =
  url :: pyval
  headers :: "(ustring \<times> ustring) list"
  params :: "(ustring \<times> pyval) list"
  files :: "(ustring \<times> bytes) list"

text \<open>
  A response: its status code, its body, and what \<open>.json()\<close> gives for that body
  (the decoder is not modelled).
\<close>

record response =
  status_code :: int
  content :: bytes
  json :: "error + pyval"

text \<open>The four places of the program that send a request.\<close>

datatype call = CreateFolder | GetUploadLink | UploadFile | GetCatImage

text \<open>The arguments of \<open>open\<close> and \<open>json.dump\<close> in \<open>save_json_data\<close>.\<close>

record json_dump =
  path :: ustring
  mode :: ustring
  encoding :: ustring
  data :: pydict
  ensure_ascii :: bool
  indent :: nat

text \<open>
  The lines the program prints. The texts are Russian in the source; a constructor stands
  for the fixed text and carries the values formatted into it.
\<close>

datatype message =
    Banner
  | PromptText
  | PromptToken
  | PromptGroup
  | FieldsMissing
  | CreatingFolder ustring
  | FolderFailed int
  | FolderAnswer pyval
  | FolderReady
  | FetchingImage ustring
  | ImageFailed
  | Uploading ustring
  | UploadDone
  | Saved ustring
  | InfoHeader
  | InfoName ustring
  | InfoText ustring
  | InfoFolder ustring
  | InfoSize nat
  | InfoPath ustring
  | UploadFailed

datatype event =
    Print message
  | Input message
  | Http call request
  | Dump json_dump

text \<open>
  The world answers each request with a response or an exception, says whether a file
  can be written, and tells the time (already formatted by \<open>strftime\<close>).
\<close>

record world =
  http :: "call \<Rightarrow> request \<Rightarrow> error + response"
  write_file :: "json_dump \<Rightarrow> error option"
  now :: ustring

section \<open>Effects\<close>

text \<open>
  A computation yields the events it caused, in order, and either its value or the
  exception that ended it.
\<close>

type_synonym 'a io = "event list \<times> (error + 'a)"

definition io_return :: "'a \<Rightarrow> 'a io" where
  "io_return x = ([], Inr x)"

definition io_raise :: "error \<Rightarrow> 'a io" where
  "io_raise e = ([], Inl e)"

definition emit :: "event \<Rightarrow> unit io" where
  "emit e = ([e], Inr ())"

definition io_bind :: "'a io \<Rightarrow> ('a \<Rightarrow> 'b io) \<Rightarrow> 'b io" where
  "io_bind m f =
     (case snd m of
        Inl e \<Rightarrow> (fst m, Inl e)
      | Inr x \<Rightarrow> (fst m @ fst (f x), snd (f x)))"

definition io_seq :: "unit io \<Rightarrow> 'b io \<Rightarrow> 'b io" where
  "io_seq m k = io_bind m (\<lambda>_. k)"

text \<open>\<open>requests.get\<close> and \<open>requests.put\<close>: the request is sent, the world answers.\<close>

definition send :: "world \<Rightarrow> call \<Rightarrow> request \<Rightarrow> response io" where
  "send w c r = ([Http c r], http w c r)"

section \<open>The program\<close>

subsection \<open>class YandexDiskUploader\<close>

text \<open>The object has three attributes; \<open>self.headers\<close> is the field \<open>auth_headers\<close>.\<close>

record YandexDiskUploader =
  token :: ustring
  base_url :: ustring
  auth_headers :: "(ustring \<times> ustring) list"

definition init_uploader :: "ustring \<Rightarrow> YandexDiskUploader" where
  "init_uploader tok =
     \<lparr>token = tok,
      base_url = ustr ''https://cloud-api.yandex.net/v1/disk/resources'',
      auth_headers = [(ustr ''Authorization'', ustr ''OAuth '' @ tok)]\<rparr>"

text \<open>
  Each method builds its request (\<open>url\<close>, \<open>headers\<close>, \<open>params\<close>, \<open>files\<close>) and
  sends it; the request is named so that theorems can speak of it.
\<close>

definition folder_request :: "YandexDiskUploader \<Rightarrow> ustring \<Rightarrow> request" where
  "folder_request self folder_name =
     \<lparr>url = PStr (base_url self),
      headers = auth_headers self,
      params = [(ustr ''path'', PStr folder_name)],
      files = []\<rparr>"

definition create_folder :: "world \<Rightarrow> YandexDiskUploader \<Rightarrow> ustring \<Rightarrow> response io" where
  "create_folder w self folder_name = send w CreateFolder (folder_request self folder_name)"

definition link_request :: "YandexDiskUploader \<Rightarrow> ustring \<Rightarrow> request" where
  "link_request self disk_file_path =
     \<lparr>url = PStr (base_url self @ ustr ''/upload''),
      headers = auth_headers self,
      params = [(ustr ''path'', PStr disk_file_path),
                (ustr ''overwrite'', PStr (ustr ''true''))],
      files = []\<rparr>"

definition get_upload_link :: "world \<Rightarrow> YandexDiskUploader \<Rightarrow> ustring \<Rightarrow> pyval io" where
  "get_upload_link w self disk_file_path =
     io_bind
       (send w GetUploadLink (link_request self disk_file_path))
       (\<lambda>resp.
          case json resp of
            Inl e \<Rightarrow> io_raise e
          | Inr (PDict kv) \<Rightarrow> io_return (dict_get kv (ustr ''href''))
          | Inr _ \<Rightarrow> io_raise AttributeError)"

definition upload_request :: "pyval \<Rightarrow> bytes \<Rightarrow> request" where
  "upload_request upload_url file_content =
     \<lparr>url = upload_url, headers = [], params = [],
      files = [(ustr ''file'', file_content)]\<rparr>"

definition upload_file :: "world \<Rightarrow> YandexDiskUploader \<Rightarrow> ustring \<Rightarrow> bytes \<Rightarrow> bool io" where
  "upload_file w self disk_file_path file_content =
     io_bind (get_upload_link w self disk_file_path)
       (\<lambda>upload_url.
          if truthy upload_url then
            io_bind
              (send w UploadFile (upload_request upload_url file_content))
              (\<lambda>resp. io_return (status_code resp = 201))
          else io_return False)"

subsection \<open>get_cat_image\<close>

definition cat_request :: "ustring \<Rightarrow> request" where
  "cat_request txt =
     \<lparr>url = PStr (ustr ''https://cataas.com/cat/says/'' @ txt),
      headers = [],
      params = [(ustr ''width'', PInt 800), (ustr ''height'', PInt 600),
                (ustr ''color'', PStr (ustr ''white''))],
      files = []\<rparr>"

definition get_cat_image :: "world \<Rightarrow> ustring \<Rightarrow> bytes option io" where
  "get_cat_image w txt =
     io_bind
       (send w GetCatImage (cat_request txt))
       (\<lambda>resp.
          if status_code resp = 200 then io_return (Some (content resp))
          else io_return None)"

subsection \<open>save_json_data\<close>

definition default_filename :: ustring where
  "default_filename = ustr ''upload_info.json''"

definition dump_of :: "pydict \<Rightarrow> ustring \<Rightarrow> json_dump" where
  "dump_of d filename =
     \<lparr>path = filename, mode = ustr ''w'', encoding = ustr ''utf-8'',
      data = d, ensure_ascii = False, indent = 4\<rparr>"

definition save_json_data :: "world \<Rightarrow> pydict \<Rightarrow> ustring \<Rightarrow> unit io" where
  "save_json_data w d filename =
     io_seq (emit (Dump (dump_of d filename)))
       (case write_file w (dump_of d filename) of
          Some e \<Rightarrow> io_raise e
        | None \<Rightarrow> emit (Print (Saved filename)))"

subsection \<open>main\<close>

text \<open>
  Lines 103 and 104: the name of the file on the disk, made from the text. The code points
  32, 95 and 45 are the space, the underscore and the hyphen.
\<close>

definition safe_filename_of :: "unicode_db \<Rightarrow> ustring \<Rightarrow> ustring" where
  "safe_filename_of db txt =
     (let safe_filename =
            rstrip db (filter (\<lambda>c. isalnum db c \<or> c \<in> set [32, 95, 45]) txt)
      in replace_char 32 95 safe_filename @ ustr ''.jpg'')"

text \<open>
  The two records. \<open>len(image_content) / 1024\<close> is a division of integers with a float
  for result; dividing by 1024 is exact for every length below \<open>2 ^ 53\<close>, so the float
  is the quotient itself.
\<close>

definition file_info :: "world \<Rightarrow> ustring \<Rightarrow> ustring \<Rightarrow> ustring \<Rightarrow> ustring \<Rightarrow> bytes \<Rightarrow> pydict" where
  "file_info w safe_filename txt group_name disk_file_path image_content =
     [(ustr ''file_name'', PStr safe_filename),
      (ustr ''original_text'', PStr txt),
      (ustr ''folder_name'', PStr group_name),
      (ustr ''disk_path'', PStr disk_file_path),
      (ustr ''file_size_bytes'', PInt (int (length image_content))),
      (ustr ''file_size_kb'', PFloat (Finite (of_nat (length image_content) / 1024))),
      (ustr ''upload_date'', PStr (now w)),
      (ustr ''source'', PStr (ustr ''cataas.com'')),
      (ustr ''upload_status'', PStr (ustr ''success''))]"

definition error_info :: "world \<Rightarrow> ustring \<Rightarrow> ustring \<Rightarrow> ustring \<Rightarrow> ustring \<Rightarrow> pydict" where
  "error_info w safe_filename txt group_name disk_file_path =
     [(ustr ''file_name'', PStr safe_filename),
      (ustr ''original_text'', PStr txt),
      (ustr ''folder_name'', PStr group_name),
      (ustr ''disk_path'', PStr disk_file_path),
      (ustr ''upload_date'', PStr (now w)),
      (ustr ''upload_status'', PStr (ustr ''failed'')),
      (ustr ''error'', PStr (ustr ''Failed to upload to Yandex.Disk''))]"

text \<open>
  \<open>main\<close>, given the three lines the user types. Each \<open>return\<close> of the source ends
  a branch here; an exception nobody catches ends the run with \<open>Inl\<close>. The test
  \<open>not image_content\<close> holds for \<open>None\<close> and for the empty byte string.
\<close>

definition main :: "unicode_db \<Rightarrow> world \<Rightarrow> ustring \<Rightarrow> ustring \<Rightarrow> ustring \<Rightarrow> unit io" where
  "main db w line1 line2 line3 =
     io_seq (emit (Print Banner))
    (io_seq (emit (Input PromptText))
    (io_seq (emit (Input PromptToken))
    (io_seq (emit (Input PromptGroup))
    (let txt = strip db line1; tok = strip db line2; group_name = strip db line3 in
     if txt = [] \<or> tok = [] \<or> group_name = [] then emit (Print FieldsMissing)
     else
       let uploader = init_uploader tok in
       io_seq (emit (Print (CreatingFolder group_name)))
      (io_bind (create_folder w uploader group_name) (\<lambda>folder_response.
       if status_code folder_response \<notin> set [201, 409] then
         io_seq (emit (Print (FolderFailed (status_code folder_response))))
           (case json folder_response of
              Inl e \<Rightarrow> io_raise e
            | Inr j \<Rightarrow> emit (Print (FolderAnswer j)))
       else
         io_seq (emit (Print FolderReady))
        (io_seq (emit (Print (FetchingImage txt)))
        (io_bind (get_cat_image w txt) (\<lambda>image_content.
         case image_content of
           None \<Rightarrow> emit (Print ImageFailed)
         | Some img \<Rightarrow>
         if img = [] then emit (Print ImageFailed)
         else
           let safe_filename = safe_filename_of db txt;
               disk_file_path = group_name @ ustr ''/'' @ safe_filename in
           io_seq (emit (Print (Uploading safe_filename)))
          (io_bind (upload_file w uploader disk_file_path img) (\<lambda>upload_success.
           if upload_success then
             io_seq (emit (Print UploadDone))
            (io_seq (save_json_data w
                       (file_info w safe_filename txt group_name disk_file_path img)
                       default_filename)
            (io_seq (emit (Print InfoHeader))
            (io_seq (emit (Print (InfoName safe_filename)))
            (io_seq (emit (Print (InfoText txt)))
            (io_seq (emit (Print (InfoFolder group_name)))
            (io_seq (emit (Print (InfoSize (length img))))
                    (emit (Print (InfoPath disk_file_path)))))))))
           else
             io_seq (emit (Print UploadFailed))
               (save_json_data w
                  (error_info w safe_filename txt group_name disk_file_path)
                  (ustr ''upload_error.json'')))))))))))))"

section \<open>Runs\<close>

text \<open>
  What a run did is read off its events: how often a place of the program sent a request,
  and which files it wrote.
\<close>

fun is_call :: "call \<Rightarrow> event \<Rightarrow> bool" where
  "is_call c (Http c' r) = (c' = c)"
| "is_call c _ = False"

definition call_count :: "call \<Rightarrow> event list \<Rightarrow> nat" where
  "call_count c tr = length (filter (is_call c) tr)"

fun dumps :: "event list \<Rightarrow> json_dump list" where
  "dumps [] = []"
| "dumps (Dump d # tr) = d # dumps tr"
| "dumps (e # tr) = dumps tr"

definition inputs_trace :: "event list" where
  "inputs_trace = [Print Banner, Input PromptText, Input PromptToken, Input PromptGroup]"

definition folder_trace :: "ustring \<Rightarrow> ustring \<Rightarrow> event list" where
  "folder_trace tok grp =
     inputs_trace @ [Print (CreatingFolder grp), Http CreateFolder (folder_request (init_uploader tok) grp)]"

definition fetch_trace :: "ustring \<Rightarrow> ustring \<Rightarrow> ustring \<Rightarrow> event list" where
  "fetch_trace txt tok grp =
     folder_trace tok grp @ [Print FolderReady, Print (FetchingImage txt), Http GetCatImage (cat_request txt)]"

definition disk_path_of :: "unicode_db \<Rightarrow> ustring \<Rightarrow> ustring \<Rightarrow> ustring" where
  "disk_path_of db txt grp = grp @ ustr ''/'' @ safe_filename_of db txt"

definition success_dump :: "unicode_db \<Rightarrow> world \<Rightarrow> ustring \<Rightarrow> ustring \<Rightarrow> bytes \<Rightarrow> json_dump" where
  "success_dump db w txt grp img =
     dump_of (file_info w (safe_filename_of db txt) txt grp (disk_path_of db txt grp) img)
       default_filename"

definition failure_dump :: "unicode_db \<Rightarrow> world \<Rightarrow> ustring \<Rightarrow> ustring \<Rightarrow> json_dump" where
  "failure_dump db w txt grp =
     dump_of (error_info w (safe_filename_of db txt) txt grp (disk_path_of db txt grp))
       (ustr ''upload_error.json'')"

definition upload_trace :: "unicode_db \<Rightarrow> ustring \<Rightarrow> ustring \<Rightarrow> ustring \<Rightarrow> event list" where
  "upload_trace db txt tok grp =
     fetch_trace txt tok grp @ [Print (Uploading (safe_filename_of db txt))]"

definition info_trace :: "unicode_db \<Rightarrow> ustring \<Rightarrow> ustring \<Rightarrow> nat \<Rightarrow> event list" where
  "info_trace db txt grp n =
     [Print (Saved default_filename), Print InfoHeader, Print (InfoName (safe_filename_of db txt)),
      Print (InfoText txt), Print (InfoFolder grp), Print (InfoSize n),
      Print (InfoPath (disk_path_of db txt grp))]"

section \<open>Result records\<close>

text \<open>What is asked of a record that is written: \<open>k in d\<close>, and the status it carries.\<close>

definition has_key :: "pydict \<Rightarrow> ustring \<Rightarrow> bool" where
  "has_key d k = (map_of d k \<noteq> None)"

definition record_status :: "pydict \<Rightarrow> pyval" where
  "record_status d = dict_get d (ustr ''upload_status'')"

fun nonempty_text :: "pyval \<Rightarrow> bool" where
  "nonempty_text (PStr s) = (s \<noteq> [])"
| "nonempty_text _ = False"

definition record_invariant :: "pydict \<Rightarrow> bool" where
  "record_invariant d =
     ((record_status d = PStr (ustr ''success'') \<longrightarrow>
         has_key d (ustr ''file_size_bytes'') \<and> has_key d (ustr ''file_size_kb'') \<and>
         \<not> has_key d (ustr ''error'')) \<and>
      (record_status d = PStr (ustr ''failed'') \<longrightarrow>
         has_key d (ustr ''error'') \<and> nonempty_text (dict_get d (ustr ''error'')) \<and>
         \<not> has_key d (ustr ''file_size_bytes'') \<and> \<not> has_key d (ustr ''file_size_kb'')))"

text \<open>
  A size rounded to two decimals, as the specification words it. The program has no such
  step for the record; the definition is here to compare with what it writes.
\<close>

definition round_2_decimals :: "rat \<Rightarrow> rat" where
  "round_2_decimals q = of_int (round (q * 100)) / 100"

section \<open>Stubbed services\<close>

text \<open>
  Concrete runs need a concrete classification of characters and concrete services. The
  classification is Python's on the code points below 128; the services answer with fixed
  status codes, the way a test stubs them.
\<close>

definition ascii_db :: unicode_db where
  "ascii_db =
     \<lparr>isalnum = (\<lambda>c. (48 \<le> c \<and> c \<le> 57) \<or> (65 \<le> c \<and> c \<le> 90) \<or> (97 \<le> c \<and> c \<le> 122)),
      isspace = (\<lambda>c. (9 \<le> c \<and> c \<le> 13) \<or> (28 \<le> c \<and> c \<le> 32))\<rparr>"

definition stub_response :: "int \<Rightarrow> bytes \<Rightarrow> error + pyval \<Rightarrow> response" where
  "stub_response s b j = \<lparr>status_code = s, content = b, json = j\<rparr>"

definition stub_world :: "int \<Rightarrow> int \<Rightarrow> bytes \<Rightarrow> pyval \<Rightarrow> error + int \<Rightarrow> world" where
  "stub_world folder_status cat_status img link_body upload_answer =
     \<lparr>http = (\<lambda>c r. case c of
          CreateFolder \<Rightarrow> Inr (stub_response folder_status [] (Inr (PDict [])))
        | GetCatImage \<Rightarrow> Inr (stub_response cat_status img (Inl JSONDecodeError))
        | GetUploadLink \<Rightarrow> Inr (stub_response 200 [] (Inr link_body))
        | UploadFile \<Rightarrow>
            (case upload_answer of
               Inl e \<Rightarrow> Inl e
             | Inr s \<Rightarrow> Inr (stub_response s [] (Inl JSONDecodeError)))),
      write_file = (\<lambda>d. None),
      now = ustr ''2024-05-01 12:00:00''\<rparr>"

definition href_body :: pyval where
  "href_body = PDict [(ustr ''href'', PStr (ustr ''https://uploader.example/target''))]"

section \<open>The runs of main\<close>

lemma io_seq_emit: "io_seq (emit e) k = (e # fst k, snd k)"
  by (simp add: io_seq_def io_bind_def emit_def)

lemma io_seq_pair: "io_seq (t, Inr ()) k = (t @ fst k, snd k)"
  by (simp add: io_seq_def io_bind_def)

lemma io_seq_pair_Inl: "io_seq (t, Inl e) k = (t, Inl e)"
  by (simp add: io_seq_def io_bind_def)

lemma io_bind_Inl: "io_bind (t, Inl e) f = (t, Inl e)"
  by (simp add: io_bind_def)

lemma io_bind_Inr: "io_bind (t, Inr x) f = (t @ fst (f x), snd (f x))"
  by (simp add: io_bind_def)

lemma get_cat_image_eq:
  "get_cat_image w txt =
     ([Http GetCatImage (cat_request txt)],
      case http w GetCatImage (cat_request txt) of
        Inl e \<Rightarrow> Inl e
      | Inr r \<Rightarrow> Inr (if status_code r = 200 then Some (content r) else None))"
  by (simp add: get_cat_image_def io_bind_def send_def io_return_def split: sum.splits)

lemmas io_simps = io_seq_emit io_seq_pair io_seq_pair_Inl io_bind_Inl io_bind_Inr

lemma save_json_data_eq:
  "save_json_data w d f =
     (case write_file w (dump_of d f) of
        Some e \<Rightarrow> ([Dump (dump_of d f)], Inl e)
      | None \<Rightarrow> ([Dump (dump_of d f), Print (Saved f)], Inr ()))"
  by (simp add: save_json_data_def io_simps io_raise_def emit_def split: option.splits)



lemma get_upload_link_eq:
  "get_upload_link w self p =
     ([Http GetUploadLink (link_request self p)],
      case http w GetUploadLink (link_request self p) of
        Inl e \<Rightarrow> Inl e
      | Inr r \<Rightarrow> (case json r of
                   Inl e \<Rightarrow> Inl e
                 | Inr (PDict kv) \<Rightarrow> Inr (dict_get kv (ustr ''href''))
                 | Inr _ \<Rightarrow> Inl AttributeError))"
  by (simp add: get_upload_link_def io_bind_def send_def io_return_def io_raise_def
           split: sum.splits pyval.splits)

lemma upload_file_eq:
  "upload_file w self p c =
     (case snd (get_upload_link w self p) of
        Inl e \<Rightarrow> ([Http GetUploadLink (link_request self p)], Inl e)
      | Inr href \<Rightarrow>
          if truthy href then
            ([Http GetUploadLink (link_request self p), Http UploadFile (upload_request href c)],
             case http w UploadFile (upload_request href c) of
               Inl e \<Rightarrow> Inl e
             | Inr r \<Rightarrow> Inr (status_code r = 201))
          else ([Http GetUploadLink (link_request self p)], Inr False))"
proof -
  have t: "fst (get_upload_link w self p) = [Http GetUploadLink (link_request self p)]"
    by (simp add: get_upload_link_eq)
  show ?thesis
    unfolding upload_file_def io_bind_def t
    by (simp add: send_def io_return_def split: sum.splits)
qed


lemmas main_simps = main_def Let_def io_simps emit_def io_raise_def create_folder_def send_def
  get_cat_image_eq save_json_data_eq inputs_trace_def folder_trace_def fetch_trace_def
  info_trace_def disk_path_of_def upload_trace_def success_dump_def failure_dump_def

lemma main_missing:
  assumes "strip db l1 = [] \<or> strip db l2 = [] \<or> strip db l3 = []"
  shows "main db w l1 l2 l3 = (inputs_trace @ [Print FieldsMissing], Inr ())"
  using assms by (simp add: main_def io_seq_emit inputs_trace_def) (simp add: emit_def)


lemma main_folder_raised:
  assumes "strip db l1 \<noteq> []" "strip db l2 \<noteq> []" "strip db l3 \<noteq> []"
    and "http w CreateFolder (folder_request (init_uploader (strip db l2)) (strip db l3)) = Inl e"
  shows "main db w l1 l2 l3 = (folder_trace (strip db l2) (strip db l3), Inl e)"
  using assms
  by (simp add: main_simps split: sum.splits option.splits)

lemma main_folder_refused:
  assumes "strip db l1 \<noteq> []" "strip db l2 \<noteq> []" "strip db l3 \<noteq> []"
    and "http w CreateFolder (folder_request (init_uploader (strip db l2)) (strip db l3)) = Inr fr"
    and "status_code fr \<noteq> 201" "status_code fr \<noteq> 409"
  shows "main db w l1 l2 l3 =
     (case json fr of
        Inl e \<Rightarrow> (folder_trace (strip db l2) (strip db l3) @
                   [Print (FolderFailed (status_code fr))], Inl e)
      | Inr j \<Rightarrow> (folder_trace (strip db l2) (strip db l3) @
                   [Print (FolderFailed (status_code fr)), Print (FolderAnswer j)], Inr ()))"
  using assms
  by (simp add: main_simps split: sum.splits option.splits)

lemma main_image_raised:
  assumes "strip db l1 \<noteq> []" "strip db l2 \<noteq> []" "strip db l3 \<noteq> []"
    and "http w CreateFolder (folder_request (init_uploader (strip db l2)) (strip db l3)) = Inr fr"
    and "status_code fr = 201 \<or> status_code fr = 409"
    and "http w GetCatImage (cat_request (strip db l1)) = Inl e"
  shows "main db w l1 l2 l3 = (fetch_trace (strip db l1) (strip db l2) (strip db l3), Inl e)"
  using assms
  by (simp add: main_simps split: sum.splits option.splits)

lemma main_no_image:
  assumes "strip db l1 \<noteq> []" "strip db l2 \<noteq> []" "strip db l3 \<noteq> []"
    and "http w CreateFolder (folder_request (init_uploader (strip db l2)) (strip db l3)) = Inr fr"
    and "status_code fr = 201 \<or> status_code fr = 409"
    and "http w GetCatImage (cat_request (strip db l1)) = Inr cr"
    and "status_code cr \<noteq> 200 \<or> content cr = []"
  shows "main db w l1 l2 l3 =
     (fetch_trace (strip db l1) (strip db l2) (strip db l3) @ [Print ImageFailed], Inr ())"
  using assms
  by (simp add: main_simps split: sum.splits option.splits)

lemma main_upload_raised:
  assumes "strip db l1 \<noteq> []" "strip db l2 \<noteq> []" "strip db l3 \<noteq> []"
    and "http w CreateFolder (folder_request (init_uploader (strip db l2)) (strip db l3)) = Inr fr"
    and "status_code fr = 201 \<or> status_code fr = 409"
    and "http w GetCatImage (cat_request (strip db l1)) = Inr cr"
    and "status_code cr = 200" "content cr \<noteq> []"
    and "upload_file w (init_uploader (strip db l2)) (disk_path_of db (strip db l1) (strip db l3))
           (content cr) = (tu, Inl e)"
  shows "main db w l1 l2 l3 =
     (upload_trace db (strip db l1) (strip db l2) (strip db l3) @ tu, Inl e)"
  using assms
  by (simp add: main_simps split: sum.splits option.splits)

lemma main_uploaded:
  assumes "strip db l1 \<noteq> []" "strip db l2 \<noteq> []" "strip db l3 \<noteq> []"
    and "http w CreateFolder (folder_request (init_uploader (strip db l2)) (strip db l3)) = Inr fr"
    and "status_code fr = 201 \<or> status_code fr = 409"
    and "http w GetCatImage (cat_request (strip db l1)) = Inr cr"
    and "status_code cr = 200" "content cr \<noteq> []"
    and "upload_file w (init_uploader (strip db l2)) (disk_path_of db (strip db l1) (strip db l3))
           (content cr) = (tu, Inr True)"
  shows "main db w l1 l2 l3 =
     (case write_file w (success_dump db w (strip db l1) (strip db l3) (content cr)) of
        Some e \<Rightarrow>
          (upload_trace db (strip db l1) (strip db l2) (strip db l3) @ tu @
           [Print UploadDone, Dump (success_dump db w (strip db l1) (strip db l3) (content cr))],
           Inl e)
      | None \<Rightarrow>
          (upload_trace db (strip db l1) (strip db l2) (strip db l3) @ tu @
           [Print UploadDone, Dump (success_dump db w (strip db l1) (strip db l3) (content cr))] @
           info_trace db (strip db l1) (strip db l3) (length (content cr)),
           Inr ()))"
  using assms
  by (simp add: main_simps split: sum.splits option.splits)

lemma main_not_uploaded:
  assumes "strip db l1 \<noteq> []" "strip db l2 \<noteq> []" "strip db l3 \<noteq> []"
    and "http w CreateFolder (folder_request (init_uploader (strip db l2)) (strip db l3)) = Inr fr"
    and "status_code fr = 201 \<or> status_code fr = 409"
    and "http w GetCatImage (cat_request (strip db l1)) = Inr cr"
    and "status_code cr = 200" "content cr \<noteq> []"
    and "upload_file w (init_uploader (strip db l2)) (disk_path_of db (strip db l1) (strip db l3))
           (content cr) = (tu, Inr False)"
  shows "main db w l1 l2 l3 =
     (case write_file w (failure_dump db w (strip db l1) (strip db l3)) of
        Some e \<Rightarrow>
          (upload_trace db (strip db l1) (strip db l2) (strip db l3) @ tu @
           [Print UploadFailed, Dump (failure_dump db w (strip db l1) (strip db l3))],
           Inl e)
      | None \<Rightarrow>
          (upload_trace db (strip db l1) (strip db l2) (strip db l3) @ tu @
           [Print UploadFailed, Dump (failure_dump db w (strip db l1) (strip db l3)),
            Print (Saved (ustr ''upload_error.json''))],
           Inr ()))"
  using assms
  by (simp add: main_simps split: sum.splits option.splits)

lemma main_cases [case_names missing folder_raised folder_refused image_raised no_image
    upload_raised uploaded not_uploaded]:
  obtains
    "strip db l1 = [] \<or> strip db l2 = [] \<or> strip db l3 = []"
    "main db w l1 l2 l3 = (inputs_trace @ [Print FieldsMissing], Inr ())"
  | e where
    "http w CreateFolder (folder_request (init_uploader (strip db l2)) (strip db l3)) = Inl e"
    "main db w l1 l2 l3 = (folder_trace (strip db l2) (strip db l3), Inl e)"
  | fr tl res where
    "http w CreateFolder (folder_request (init_uploader (strip db l2)) (strip db l3)) = Inr fr"
    "status_code fr \<noteq> 201" "status_code fr \<noteq> 409"
    "main db w l1 l2 l3 =
       (folder_trace (strip db l2) (strip db l3) @ Print (FolderFailed (status_code fr)) # tl, res)"
    "(\<exists>e. tl = [] \<and> res = Inl e) \<or> (\<exists>j. tl = [Print (FolderAnswer j)] \<and> res = Inr ())"
  | fr e where
    "http w CreateFolder (folder_request (init_uploader (strip db l2)) (strip db l3)) = Inr fr"
    "status_code fr = 201 \<or> status_code fr = 409"
    "http w GetCatImage (cat_request (strip db l1)) = Inl e"
    "main db w l1 l2 l3 = (fetch_trace (strip db l1) (strip db l2) (strip db l3), Inl e)"
  | fr cr where
    "http w CreateFolder (folder_request (init_uploader (strip db l2)) (strip db l3)) = Inr fr"
    "status_code fr = 201 \<or> status_code fr = 409"
    "http w GetCatImage (cat_request (strip db l1)) = Inr cr"
    "status_code cr \<noteq> 200 \<or> content cr = []"
    "main db w l1 l2 l3 =
       (fetch_trace (strip db l1) (strip db l2) (strip db l3) @ [Print ImageFailed], Inr ())"
  | fr cr tu e where
    "http w CreateFolder (folder_request (init_uploader (strip db l2)) (strip db l3)) = Inr fr"
    "status_code fr = 201 \<or> status_code fr = 409"
    "http w GetCatImage (cat_request (strip db l1)) = Inr cr"
    "status_code cr = 200" "content cr \<noteq> []"
    "upload_file w (init_uploader (strip db l2)) (disk_path_of db (strip db l1) (strip db l3))
           (content cr) = (tu, Inl e)"
    "main db w l1 l2 l3 = (upload_trace db (strip db l1) (strip db l2) (strip db l3) @ tu, Inl e)"
  | fr cr tu tl res where
    "http w CreateFolder (folder_request (init_uploader (strip db l2)) (strip db l3)) = Inr fr"
    "status_code fr = 201 \<or> status_code fr = 409"
    "http w GetCatImage (cat_request (strip db l1)) = Inr cr"
    "status_code cr = 200" "content cr \<noteq> []"
    "upload_file w (init_uploader (strip db l2)) (disk_path_of db (strip db l1) (strip db l3))
           (content cr) = (tu, Inr True)"
    "main db w l1 l2 l3 =
       (upload_trace db (strip db l1) (strip db l2) (strip db l3) @ tu @
        [Print UploadDone, Dump (success_dump db w (strip db l1) (strip db l3) (content cr))] @ tl,
        res)"
    "(\<exists>e. tl = [] \<and> res = Inl e) \<or>
     (tl = info_trace db (strip db l1) (strip db l3) (length (content cr)) \<and> res = Inr ())"
  | fr cr tu tl res where
    "http w CreateFolder (folder_request (init_uploader (strip db l2)) (strip db l3)) = Inr fr"
    "status_code fr = 201 \<or> status_code fr = 409"
    "http w GetCatImage (cat_request (strip db l1)) = Inr cr"
    "status_code cr = 200" "content cr \<noteq> []"
    "upload_file w (init_uploader (strip db l2)) (disk_path_of db (strip db l1) (strip db l3))
           (content cr) = (tu, Inr False)"
    "main db w l1 l2 l3 =
       (upload_trace db (strip db l1) (strip db l2) (strip db l3) @ tu @
        [Print UploadFailed, Dump (failure_dump db w (strip db l1) (strip db l3))] @ tl,
        res)"
    "(\<exists>e. tl = [] \<and> res = Inl e) \<or>
     (tl = [Print (Saved (ustr ''upload_error.json''))] \<and> res = Inr ())"
proof (cases "strip db l1 = [] \<or> strip db l2 = [] \<or> strip db l3 = []")
  case True
  then show ?thesis using that(1) main_missing by blast
next
  case ne: False
  then have n: "strip db l1 \<noteq> []" "strip db l2 \<noteq> []" "strip db l3 \<noteq> []" by auto
  show ?thesis
  proof (cases "http w CreateFolder (folder_request (init_uploader (strip db l2)) (strip db l3))")
    case (Inl e)
    then show ?thesis using that(2) main_folder_raised[OF n] by blast
  next
    case fr: (Inr fr)
    show ?thesis
    proof (cases "status_code fr = 201 \<or> status_code fr = 409")
      case False
      then have s: "status_code fr \<noteq> 201" "status_code fr \<noteq> 409" by auto
      show ?thesis
      proof (cases "json fr")
        case (Inl e)
        then show ?thesis
          using that(3)[OF fr s, of "[]" "Inl e"] main_folder_refused[OF n fr s] by simp
      next
        case (Inr j)
        then show ?thesis
          using that(3)[OF fr s, of "[Print (FolderAnswer j)]" "Inr ()"]
            main_folder_refused[OF n fr s] by simp
      qed
    next
      case ok: True
      show ?thesis
      proof (cases "http w GetCatImage (cat_request (strip db l1))")
        case (Inl e)
        then show ?thesis using that(4)[OF fr ok] main_image_raised[OF n fr ok] by blast
      next
        case cr: (Inr cr)
        show ?thesis
        proof (cases "status_code cr \<noteq> 200 \<or> content cr = []")
          case True
          then show ?thesis using that(5)[OF fr ok cr] main_no_image[OF n fr ok cr] by blast
        next
          case False
          then have im: "status_code cr = 200" "content cr \<noteq> []" by auto
          obtain tu ru where u:
            "upload_file w (init_uploader (strip db l2))
               (disk_path_of db (strip db l1) (strip db l3)) (content cr) = (tu, ru)"
            by (cases "upload_file w (init_uploader (strip db l2))
               (disk_path_of db (strip db l1) (strip db l3)) (content cr)") auto
          show ?thesis
          proof (cases ru)
            case (Inl e)
            then show ?thesis
              using that(6)[OF fr ok cr im] main_upload_raised[OF n fr ok cr im] u by blast
          next
            case (Inr b)
            show ?thesis
            proof (cases b)
              case True
              with Inr u have u': "upload_file w (init_uploader (strip db l2))
               (disk_path_of db (strip db l1) (strip db l3)) (content cr) = (tu, Inr True)" by simp
              show ?thesis
              proof (cases "write_file w (success_dump db w (strip db l1) (strip db l3) (content cr))")
                case None
                then show ?thesis
                  using that(7)[OF fr ok cr im u', of "info_trace db (strip db l1) (strip db l3) (length (content cr))" "Inr ()"]
                    main_uploaded[OF n fr ok cr im u'] by simp
              next
                case (Some e)
                then show ?thesis
                  using that(7)[OF fr ok cr im u', of "[]" "Inl e"]
                    main_uploaded[OF n fr ok cr im u'] by simp
              qed
            next
              case False
              with Inr u have u': "upload_file w (init_uploader (strip db l2))
               (disk_path_of db (strip db l1) (strip db l3)) (content cr) = (tu, Inr False)" by simp
              show ?thesis
              proof (cases "write_file w (failure_dump db w (strip db l1) (strip db l3))")
                case None
                then show ?thesis
                  using that(8)[OF fr ok cr im u', of "[Print (Saved (ustr ''upload_error.json''))]" "Inr ()"]
                    main_not_uploaded[OF n fr ok cr im u'] by simp
              next
                case (Some e)
                then show ?thesis
                  using that(8)[OF fr ok cr im u', of "[]" "Inl e"]
                    main_not_uploaded[OF n fr ok cr im u'] by simp
              qed
            qed
          qed
        qed
      qed
    qed
  qed
qed

subsection \<open>What every run looks like\<close>

lemma dumps_append: "dumps (a @ b) = dumps a @ dumps b"
  by (induction a rule: dumps.induct) simp_all

lemma call_count_append: "call_count c (a @ b) = call_count c a + call_count c b"
  by (simp add: call_count_def)

lemma upload_file_events:
  assumes "upload_file w self p c = (tu, ru)"
  shows "tu = [Http GetUploadLink (link_request self p)] \<or>
         (\<exists>href. tu = [Http GetUploadLink (link_request self p),
                         Http UploadFile (upload_request href c)])"
  using assms by (auto simp: upload_file_eq split: sum.splits if_splits)

lemmas trace_defs = inputs_trace_def folder_trace_def fetch_trace_def upload_trace_def
  info_trace_def

lemma main_dumps:
  "dumps (fst (main db w l1 l2 l3)) = [] \<or>
   (\<exists>cr. http w GetCatImage (cat_request (strip db l1)) = Inr cr \<and>
      dumps (fst (main db w l1 l2 l3)) =
        [success_dump db w (strip db l1) (strip db l3) (content cr)]) \<or>
   dumps (fst (main db w l1 l2 l3)) = [failure_dump db w (strip db l1) (strip db l3)]"
proof (cases rule: main_cases[of db l1 l2 l3 w])
  case missing
  then show ?thesis by (simp add: trace_defs)
next
  case (folder_raised e)
  then show ?thesis by (simp add: trace_defs)
next
  case (folder_refused fr tl res)
  then show ?thesis by (auto simp: trace_defs dumps_append)
next
  case (image_raised fr e)
  then show ?thesis by (simp add: trace_defs)
next
  case (no_image fr cr)
  then show ?thesis by (simp add: trace_defs)
next
  case (upload_raised fr cr tu e)
  then show ?thesis using upload_file_events[OF upload_raised(6)]
    by (auto simp: trace_defs dumps_append)
next
  case (uploaded fr cr tu tl res)
  then show ?thesis using upload_file_events[OF uploaded(6)]
    by (auto simp: trace_defs dumps_append)
next
  case (not_uploaded fr cr tu tl res)
  then show ?thesis using upload_file_events[OF not_uploaded(6)]
    by (auto simp: trace_defs dumps_append)
qed

lemma main_upload_done:
  assumes "Print UploadDone \<in> set (fst (main db w l1 l2 l3))"
    and "http w GetCatImage (cat_request (strip db l1)) = Inr cr"
  shows "dumps (fst (main db w l1 l2 l3)) =
           [success_dump db w (strip db l1) (strip db l3) (content cr)]"
proof (cases rule: main_cases[of db l1 l2 l3 w])
  case missing
  then show ?thesis using assms by (simp add: trace_defs)
next
  case (folder_raised e)
  then show ?thesis using assms by (simp add: trace_defs)
next
  case (folder_refused fr tl res)
  then show ?thesis using assms by (auto simp: trace_defs)
next
  case (image_raised fr e)
  then show ?thesis using assms by (simp add: trace_defs)
next
  case (no_image fr cr)
  then show ?thesis using assms by (simp add: trace_defs)
next
  case (upload_raised fr cr tu e)
  then show ?thesis using assms upload_file_events[OF upload_raised(6)]
    by (auto simp: trace_defs)
next
  case (uploaded fr cr' tu tl res)
  then show ?thesis using assms upload_file_events[OF uploaded(6)]
    by (auto simp: trace_defs dumps_append)
next
  case (not_uploaded fr cr tu tl res)
  then show ?thesis using assms upload_file_events[OF not_uploaded(6)]
    by (auto simp: trace_defs)
qed

lemma main_fetch_failed:
  assumes "Http GetCatImage req \<in> set (fst (main db w l1 l2 l3))"
    and "http w GetCatImage req = Inr cr"
    and "status_code cr \<noteq> 200 \<or> content cr = []"
  shows "req = cat_request (strip db l1) \<and>
         main db w l1 l2 l3 =
           (fetch_trace (strip db l1) (strip db l2) (strip db l3) @ [Print ImageFailed], Inr ())"
proof (cases rule: main_cases[of db l1 l2 l3 w])
  case missing
  then show ?thesis using assms by (simp add: trace_defs)
next
  case (folder_raised e)
  then show ?thesis using assms by (simp add: trace_defs)
next
  case (folder_refused fr tl res)
  then show ?thesis using assms by (auto simp: trace_defs)
next
  case (image_raised fr e)
  then show ?thesis using assms by (simp add: trace_defs)
next
  case (no_image fr cr)
  then show ?thesis using assms by (simp add: trace_defs)
next
  case (upload_raised fr cr tu e)
  then show ?thesis using assms upload_file_events[OF upload_raised(6)]
    by (auto simp: trace_defs)
next
  case (uploaded fr cr' tu tl res)
  then show ?thesis using assms upload_file_events[OF uploaded(6)]
    by (auto simp: trace_defs)
next
  case (not_uploaded fr cr tu tl res)
  then show ?thesis using assms upload_file_events[OF not_uploaded(6)]
    by (auto simp: trace_defs)
qed

subsection \<open>Stripping and the file name\<close>

lemma strip_Nil: "strip db [] = []"
  by (simp add: strip_def rstrip_def lstrip_def)

lemma rstrip_strip: "rstrip db (strip db s) = strip db s"
  by (simp add: strip_def rstrip_def)

lemma safe_filename_of_allowed:
  assumes "\<forall>c \<in> set (strip db s). isalnum db c \<or> c = 32 \<or> c = 95 \<or> c = 45"
  shows "safe_filename_of db (strip db s) = replace_char 32 95 (strip db s) @ ustr ''.jpg''"
proof -
  have "filter (\<lambda>c. isalnum db c \<or> c \<in> set [32, 95, 45]) (strip db s) = strip db s"
    using assms by (intro filter_True) auto
  then show ?thesis
    by (simp add: safe_filename_of_def rstrip_strip)
qed

lemma set_rstrip: "set (rstrip db s) \<subseteq> set s"
  using set_dropWhileD[of _ "isspace db" "rev s"] by (auto simp: rstrip_def)

lemma stem_chars:
  "c \<in> set (replace_char 32 95 (rstrip db (filter (\<lambda>c. isalnum db c \<or> c \<in> set [32, 95, 45]) s)))
   \<Longrightarrow> isalnum db c \<or> c = 95 \<or> c = 45"
  using set_rstrip[of db "filter (\<lambda>c. isalnum db c \<or> c \<in> set [32, 95, 45]) s"]
  by (auto simp: replace_char_def split: if_splits)

lemma rstrip_last: "rstrip db s \<noteq> [] \<Longrightarrow> \<not> isspace db (last (rstrip db s))"
  by (metis (no_types, lifting) dropWhile_eq_Nil_conv hd_dropWhile last_rev rev_is_Nil_conv rstrip_def)

subsection \<open>Evaluating a concrete run\<close>

lemmas run_simps = main_simps upload_file_eq get_upload_link_eq stub_world_def stub_response_def
  href_body_def dict_get_def strip_def rstrip_def lstrip_def ascii_db_def

lemma dump_file_name_success:
  "dict_get (data (success_dump db w t g img)) (ustr ''file_name'') = PStr (safe_filename_of db t)"
  by (simp add: success_dump_def dump_of_def file_info_def dict_get_def)

lemma dump_file_name_failure:
  "dict_get (data (failure_dump db w t g)) (ustr ''file_name'') = PStr (safe_filename_of db t)"
  by (simp add: failure_dump_def dump_of_def error_info_def dict_get_def)

section \<open>The properties of the specification\<close>

subsection \<open>The file name\<close>

text \<open>
  C1. The display text of \<open>main\<close> is the first line typed, stripped. When it holds only
  alphanumerics, spaces, underscores and hyphens, the file name is that text with each space
  replaced by an underscore, followed by \<open>.jpg\<close>; before the extension there are only
  alphanumerics, underscores and hyphens; and this is the name in every record the run writes.
\<close>

theorem filename_of_allowed_text:
  assumes "\<forall>c \<in> set (strip db l1). isalnum db c \<or> c = 32 \<or> c = 95 \<or> c = 45"
  shows "safe_filename_of db (strip db l1) = replace_char 32 95 (strip db l1) @ ustr ''.jpg'' \<and>
         (\<forall>c \<in> set (replace_char 32 95 (strip db l1)). isalnum db c \<or> c = 95 \<or> c = 45) \<and>
         (\<forall>d \<in> set (dumps (fst (main db w l1 l2 l3))).
            dict_get (data d) (ustr ''file_name'') =
              PStr (replace_char 32 95 (strip db l1) @ ustr ''.jpg''))"
proof -
  have eq: "safe_filename_of db (strip db l1) = replace_char 32 95 (strip db l1) @ ustr ''.jpg''"
    by (rule safe_filename_of_allowed[OF assms])
  have stem: "\<forall>c \<in> set (replace_char 32 95 (strip db l1)). isalnum db c \<or> c = 95 \<or> c = 45"
    using assms by (auto simp: replace_char_def)
  have "dict_get (data d) (ustr ''file_name'') =
          PStr (replace_char 32 95 (strip db l1) @ ustr ''.jpg'')"
    if "d \<in> set (dumps (fst (main db w l1 l2 l3)))" for d
    using that main_dumps[of db w l1 l2 l3] dump_file_name_success[of db w "strip db l1" "strip db l3"]
      dump_file_name_failure[of db w "strip db l1" "strip db l3"] eq
    by auto
  with eq stem show ?thesis by blast
qed

theorem filename_of_allowed_text_witness:
  "strip ascii_db (ustr '' Hello World '') = ustr ''Hello World'' \<and>
   safe_filename_of ascii_db (strip ascii_db (ustr '' Hello World '')) = ustr ''Hello_World.jpg'' \<and>
   dumps (fst (main ascii_db (stub_world 201 200 (replicate 2048 0) href_body (Inr 201))
        (ustr '' Hello World '') (ustr ''t0ken'') (ustr ''group1''))) \<noteq> []"
proof -
  have h: "\<forall>c \<in> set (strip ascii_db (ustr '' Hello World '')).
      isalnum ascii_db c \<or> c = 32 \<or> c = 95 \<or> c = 45"
    by (simp add: strip_def rstrip_def lstrip_def ascii_db_def ustr_def)
  have d: "dumps (fst (main ascii_db (stub_world 201 200 (replicate 2048 0) href_body (Inr 201))
        (ustr '' Hello World '') (ustr ''t0ken'') (ustr ''group1''))) \<noteq> []"
    by (simp add: run_simps ustr_def)
  show ?thesis
    using h d filename_of_allowed_text[OF h, of "stub_world 201 200 (replicate 2048 0) href_body (Inr 201)"
       "ustr ''t0ken''" "ustr ''group1''"]
    by (simp add: strip_def rstrip_def lstrip_def ascii_db_def ustr_def replace_char_def)
qed

text \<open>
  C10. For a text of any characters, the file name ends with \<open>.jpg\<close>, and what stands
  before the extension holds only alphanumerics, underscores and hyphens: the characters not
  allowed are dropped, white space at the end is stripped, the spaces left become underscores.
\<close>

theorem filename_of_any_text:
  "safe_filename_of db txt =
     replace_char 32 95 (rstrip db (filter (\<lambda>c. isalnum db c \<or> c \<in> set [32, 95, 45]) txt)) @
     ustr ''.jpg'' \<and>
   (\<forall>c \<in> set (replace_char 32 95
        (rstrip db (filter (\<lambda>c. isalnum db c \<or> c \<in> set [32, 95, 45]) txt))).
      isalnum db c \<or> c = 95 \<or> c = 45) \<and>
   (rstrip db (filter (\<lambda>c. isalnum db c \<or> c \<in> set [32, 95, 45]) txt) = [] \<or>
    \<not> isspace db (last (rstrip db (filter (\<lambda>c. isalnum db c \<or> c \<in> set [32, 95, 45]) txt))))"
  using stem_chars[of _ db "txt"] rstrip_last[of db]
  by (auto simp: safe_filename_of_def)

theorem filename_of_any_text_witness:
  "safe_filename_of ascii_db (ustr '' Hi, cat! (2) '') = ustr ''_Hi_cat_2'' @ ustr ''.jpg'' \<and>
   list_all (isalnum ascii_db) (ustr ''Hicat2'') \<and>
   rstrip ascii_db (ustr ''a b  '') = ustr ''a b''"
  using filename_of_any_text[of ascii_db "ustr '' Hi, cat! (2) ''"]
  by (simp add: rstrip_def ascii_db_def ustr_def replace_char_def)

subsection \<open>Missing input\<close>

text \<open>
  C7. When one of the three lines typed is empty (or only white space, which \<open>strip\<close>
  removes), the run prints the configuration error and returns: no request is sent to any
  service and no file is written.
\<close>

theorem missing_field_aborts:
  assumes "strip db l1 = [] \<or> strip db l2 = [] \<or> strip db l3 = []"
  shows "main db w l1 l2 l3 =
           ([Print Banner, Input PromptText, Input PromptToken, Input PromptGroup,
             Print FieldsMissing], Inr ()) \<and>
         call_count CreateFolder (fst (main db w l1 l2 l3)) = 0 \<and>
         call_count GetCatImage (fst (main db w l1 l2 l3)) = 0 \<and>
         call_count GetUploadLink (fst (main db w l1 l2 l3)) = 0 \<and>
         call_count UploadFile (fst (main db w l1 l2 l3)) = 0 \<and>
         dumps (fst (main db w l1 l2 l3)) = []"
  using main_missing[OF assms, of w] by (simp add: inputs_trace_def call_count_def)

theorem missing_field_aborts_witness:
  "strip ascii_db (ustr ''Hello World'') \<noteq> [] \<and>
   strip ascii_db (ustr ''   '') = [] \<and>
   main ascii_db (stub_world 201 200 (replicate 2048 0) href_body (Inr 201))
        (ustr ''Hello World'') (ustr ''   '') [] =
     ([Print Banner, Input PromptText, Input PromptToken, Input PromptGroup,
       Print FieldsMissing], Inr ())"
proof -
  have h: "strip ascii_db (ustr ''Hello World'') = [] \<or> strip ascii_db (ustr ''   '') = [] \<or>
           strip ascii_db [] = []"
    by (simp add: strip_Nil)
  have "strip ascii_db (ustr ''Hello World'') \<noteq> []" "strip ascii_db (ustr ''   '') = []"
    by (simp_all add: strip_def rstrip_def lstrip_def ascii_db_def ustr_def)
  then show ?thesis
    using missing_field_aborts[OF h, of "stub_world 201 200 (replicate 2048 0) href_body (Inr 201)"]
    by simp
qed

subsection \<open>The result record\<close>

lemmas record_defs = success_dump_def failure_dump_def dump_of_def file_info_def error_info_def
  dict_get_def record_status_def has_key_def default_filename_def ustr_def

lemma success_dump_status:
  "record_status (data (success_dump db w t g img)) = PStr (ustr ''success'')"
  by (simp add: record_defs)

lemma failure_dump_status:
  "record_status (data (failure_dump db w t g)) = PStr (ustr ''failed'')"
  by (simp add: record_defs)

lemma success_neq_failed: "PStr (ustr ''success'') \<noteq> PStr (ustr ''failed'')"
  by (simp add: ustr_def)

lemma success_dump_invariant: "record_invariant (data (success_dump db w t g img))"
  unfolding record_invariant_def success_dump_status
  by (simp add: record_defs)

lemma failure_dump_invariant: "record_invariant (data (failure_dump db w t g))"
  unfolding record_invariant_def failure_dump_status
  by (simp add: record_defs)

lemma success_dump_sizes:
  "dict_get (data (success_dump db w t g img)) (ustr ''file_size_bytes'') = PInt (int (length img))"
  "dict_get (data (success_dump db w t g img)) (ustr ''file_size_kb'') =
     PFloat (Finite (of_nat (length img) / 1024))"
  by (simp_all add: record_defs)

lemma dump_settings:
  "mode (success_dump db w t g img) = ustr ''w''"
  "encoding (success_dump db w t g img) = ustr ''utf-8''"
  "indent (success_dump db w t g img) = 4"
  "\<not> ensure_ascii (success_dump db w t g img)"
  "path (success_dump db w t g img) = ustr ''upload_info.json''"
  "mode (failure_dump db w t g) = ustr ''w''"
  "encoding (failure_dump db w t g) = ustr ''utf-8''"
  "indent (failure_dump db w t g) = 4"
  "\<not> ensure_ascii (failure_dump db w t g)"
  "path (failure_dump db w t g) = ustr ''upload_error.json''"
  by (simp_all add: success_dump_def failure_dump_def dump_of_def default_filename_def)

lemma run_uploaded:
  "dumps (fst (main ascii_db (stub_world 201 200 (replicate 2048 0) href_body (Inr 201))
        (ustr ''Hello World'') (ustr ''t0ken'') (ustr ''group1''))) =
   [success_dump ascii_db (stub_world 201 200 (replicate 2048 0) href_body (Inr 201))
      (ustr ''Hello World'') (ustr ''group1'') (replicate 2048 0)]"
  by (simp add: run_simps ustr_def)

lemma run_rejected:
  "dumps (fst (main ascii_db (stub_world 409 200 (replicate 2048 0) href_body (Inr 500))
        (ustr ''Hello World'') (ustr ''t0ken'') (ustr ''group1''))) =
   [failure_dump ascii_db (stub_world 409 200 (replicate 2048 0) href_body (Inr 500))
      (ustr ''Hello World'') (ustr ''group1'')]"
  by (simp add: run_simps ustr_def)

lemma run_uploaded_done:
  "Print UploadDone \<in> set (fst (main ascii_db (stub_world 201 200 img href_body (Inr 201))
        (ustr ''Hello World'') (ustr ''t0ken'') (ustr ''group1''))) \<or> img = []"
  by (simp add: run_simps ustr_def)

text \<open>
  C3. Every record the program writes is of one of two kinds. With status \<open>success\<close> it
  has both size fields and no \<open>error\<close> field; with status \<open>failed\<close> it has a
  non-empty \<open>error\<close> text and neither size field.
\<close>

theorem written_record_invariant:
  "\<forall>d \<in> set (dumps (fst (main db w l1 l2 l3))).
     record_invariant (data d) \<and>
     (record_status (data d) = PStr (ustr ''success'') \<or>
      record_status (data d) = PStr (ustr ''failed''))"
  using main_dumps[of db w l1 l2 l3]
    success_dump_invariant[of db w "strip db l1" "strip db l3"]
    failure_dump_invariant[of db w "strip db l1" "strip db l3"]
    success_dump_status[of db w "strip db l1" "strip db l3"]
    failure_dump_status[of db w "strip db l1" "strip db l3"]
  by auto

theorem written_record_invariant_witness:
  "record_invariant (data (success_dump ascii_db
      (stub_world 201 200 (replicate 2048 0) href_body (Inr 201))
      (ustr ''Hello World'') (ustr ''group1'') (replicate 2048 0))) \<and>
   record_invariant (data (failure_dump ascii_db
      (stub_world 409 200 (replicate 2048 0) href_body (Inr 500))
      (ustr ''Hello World'') (ustr ''group1'')))"
  using
    written_record_invariant[of ascii_db "stub_world 201 200 (replicate 2048 0) href_body (Inr 201)"
      "ustr ''Hello World''" "ustr ''t0ken''" "ustr ''group1''"]
    written_record_invariant[of ascii_db "stub_world 409 200 (replicate 2048 0) href_body (Inr 500)"
      "ustr ''Hello World''" "ustr ''t0ken''" "ustr ''group1''"]
  by (simp add: run_uploaded run_rejected)

text \<open>
  C8. A record with status \<open>success\<close> goes to \<open>upload_info.json\<close>, one with status
  \<open>failed\<close> to \<open>upload_error.json\<close>; both are opened for writing in UTF-8 and dumped
  with \<open>indent=4\<close> and \<open>ensure_ascii=False\<close>. The two names differ and a run writes
  at most one file, so it never overwrites the record of the other kind.
\<close>

theorem record_files:
  "(\<forall>d \<in> set (dumps (fst (main db w l1 l2 l3))).
      mode d = ustr ''w'' \<and> encoding d = ustr ''utf-8'' \<and> indent d = 4 \<and> \<not> ensure_ascii d \<and>
      (record_status (data d) = PStr (ustr ''success'') \<and> path d = ustr ''upload_info.json'' \<or>
       record_status (data d) = PStr (ustr ''failed'') \<and> path d = ustr ''upload_error.json'')) \<and>
   length (dumps (fst (main db w l1 l2 l3))) \<le> 1 \<and>
   ustr ''upload_info.json'' \<noteq> ustr ''upload_error.json'' \<and>
   PStr (ustr ''success'') \<noteq> PStr (ustr ''failed'')"
proof -
  have "mode d = ustr ''w'' \<and> encoding d = ustr ''utf-8'' \<and> indent d = 4 \<and> \<not> ensure_ascii d \<and>
      (record_status (data d) = PStr (ustr ''success'') \<and> path d = ustr ''upload_info.json'' \<or>
       record_status (data d) = PStr (ustr ''failed'') \<and> path d = ustr ''upload_error.json'')"
    if "d \<in> set (dumps (fst (main db w l1 l2 l3)))" for d
    using that main_dumps[of db w l1 l2 l3]
      dump_settings[of db w "strip db l1" "strip db l3"]
      success_dump_status[of db w "strip db l1" "strip db l3"]
      failure_dump_status[of db w "strip db l1" "strip db l3"]
    by auto
  moreover have "length (dumps (fst (main db w l1 l2 l3))) \<le> 1"
    using main_dumps[of db w l1 l2 l3] by auto
  moreover have "ustr ''upload_info.json'' \<noteq> ustr ''upload_error.json''"
    by (simp add: ustr_def)
  ultimately show ?thesis using success_neq_failed by blast
qed

theorem record_files_witness:
  "path (success_dump ascii_db (stub_world 201 200 (replicate 2048 0) href_body (Inr 201))
      (ustr ''Hello World'') (ustr ''group1'') (replicate 2048 0)) = ustr ''upload_info.json'' \<and>
   path (failure_dump ascii_db (stub_world 409 200 (replicate 2048 0) href_body (Inr 500))
      (ustr ''Hello World'') (ustr ''group1'')) = ustr ''upload_error.json'' \<and>
   encoding (failure_dump ascii_db (stub_world 409 200 (replicate 2048 0) href_body (Inr 500))
      (ustr ''Hello World'') (ustr ''group1'')) = ustr ''utf-8''"
  using
    record_files[of ascii_db "stub_world 201 200 (replicate 2048 0) href_body (Inr 201)"
      "ustr ''Hello World''" "ustr ''t0ken''" "ustr ''group1''"]
    record_files[of ascii_db "stub_world 409 200 (replicate 2048 0) href_body (Inr 500)"
      "ustr ''Hello World''" "ustr ''t0ken''" "ustr ''group1''"]
    success_dump_status failure_dump_status success_neq_failed
  by (auto simp: run_uploaded run_rejected)

text \<open>
  C6, as the code has it. In a run that reports the upload as done, the record written has
  status \<open>success\<close>, \<open>file_size_bytes\<close> is the length of the image fetched, and
  \<open>file_size_kb\<close> is exactly that length divided by 1024: the record holds the quotient
  itself, with no rounding to two decimals (only the line printed on the console is rounded).
  Dividing by 1024 is exact in binary floating point for every length below \<open>2 ^ 53\<close>, so
  the float is its exact value. A payload of 2048 bytes gives 2048 and 2.0.
\<close>

theorem success_record_sizes:
  assumes "Print UploadDone \<in> set (fst (main db w l1 l2 l3))"
    and "http w GetCatImage (cat_request (strip db l1)) = Inr cr"
  shows "dumps (fst (main db w l1 l2 l3)) =
           [success_dump db w (strip db l1) (strip db l3) (content cr)] \<and>
         record_status (data (success_dump db w (strip db l1) (strip db l3) (content cr))) =
           PStr (ustr ''success'') \<and>
         dict_get (data (success_dump db w (strip db l1) (strip db l3) (content cr)))
           (ustr ''file_size_bytes'') = PInt (int (length (content cr))) \<and>
         dict_get (data (success_dump db w (strip db l1) (strip db l3) (content cr)))
           (ustr ''file_size_kb'') = PFloat (Finite (of_nat (length (content cr)) / 1024))"
  using main_upload_done[OF assms] success_dump_status success_dump_sizes by simp

theorem success_record_sizes_witness:
  "dict_get (data (success_dump ascii_db (stub_world 201 200 (replicate 2048 0) href_body (Inr 201))
       (ustr ''Hello World'') (ustr ''group1'') (replicate 2048 0))) (ustr ''file_size_bytes'') =
     PInt 2048 \<and>
   dict_get (data (success_dump ascii_db (stub_world 201 200 (replicate 2048 0) href_body (Inr 201))
       (ustr ''Hello World'') (ustr ''group1'') (replicate 2048 0))) (ustr ''file_size_kb'') =
     PFloat (Finite 2) \<and>
   dict_get (data (success_dump ascii_db (stub_world 201 200 (replicate 2048 0) href_body (Inr 201))
       (ustr ''Hello World'') (ustr ''group1'') (replicate 2048 0))) (ustr ''disk_path'') =
     PStr (ustr ''group1/Hello_World.jpg'')"
proof -
  have up: "Print UploadDone \<in> set (fst (main ascii_db
        (stub_world 201 200 (replicate 2048 0) href_body (Inr 201))
        (ustr ''Hello World'') (ustr ''t0ken'') (ustr ''group1'')))"
    using run_uploaded_done[of "replicate 2048 0"] by simp
  have ans: "http (stub_world 201 200 (replicate 2048 0) href_body (Inr 201)) GetCatImage
          (cat_request (strip ascii_db (ustr ''Hello World''))) =
        Inr (stub_response 200 (replicate 2048 0) (Inl JSONDecodeError))"
    by (simp add: stub_world_def)
  have st: "strip ascii_db (ustr ''Hello World'') = ustr ''Hello World''"
    "strip ascii_db (ustr ''group1'') = ustr ''group1''"
    by (simp_all add: strip_def rstrip_def lstrip_def ascii_db_def ustr_def)
  have p: "dict_get (data (success_dump ascii_db (stub_world 201 200 (replicate 2048 0) href_body (Inr 201))
       (ustr ''Hello World'') (ustr ''group1'') (replicate 2048 0))) (ustr ''disk_path'') =
     PStr (ustr ''group1/Hello_World.jpg'')"
    by (simp add: record_defs disk_path_of_def safe_filename_of_def rstrip_def ascii_db_def
          replace_char_def)
  show ?thesis
    using success_record_sizes[OF up ans] p by (simp add: st stub_response_def)
qed

text \<open>
  C6 as the specification words it does not hold: for an image of one byte the record
  holds 1/1024, which rounded to two decimals would be 0.
\<close>

theorem size_kb_not_rounded:
  "Print UploadDone \<in> set (fst (main ascii_db (stub_world 201 200 [65] href_body (Inr 201))
        (ustr ''Hello World'') (ustr ''t0ken'') (ustr ''group1''))) \<and>
   dumps (fst (main ascii_db (stub_world 201 200 [65] href_body (Inr 201))
        (ustr ''Hello World'') (ustr ''t0ken'') (ustr ''group1''))) =
     [success_dump ascii_db (stub_world 201 200 [65] href_body (Inr 201))
        (ustr ''Hello World'') (ustr ''group1'') [65]] \<and>
   dict_get (data (success_dump ascii_db (stub_world 201 200 [65] href_body (Inr 201))
        (ustr ''Hello World'') (ustr ''group1'') [65])) (ustr ''file_size_kb'') =
     PFloat (Finite (1 / 1024)) \<and>
   round_2_decimals (1 / 1024) = 0 \<and>
   \<bar>1 / 1024 - round_2_decimals (1 / 1024)\<bar> = 1 / 1024"
proof -
  have r: "round_2_decimals (1 / 1024) = 0"
    by (simp add: round_2_decimals_def round_def floor_eq_iff)
  have d: "dumps (fst (main ascii_db (stub_world 201 200 [65] href_body (Inr 201))
        (ustr ''Hello World'') (ustr ''t0ken'') (ustr ''group1''))) =
     [success_dump ascii_db (stub_world 201 200 [65] href_body (Inr 201))
        (ustr ''Hello World'') (ustr ''group1'') [65]]"
    by (simp add: run_simps ustr_def)
  show ?thesis
    using run_uploaded_done[of "[65]"] d r success_dump_sizes(2)[of ascii_db _ _ _ "[65]"]
    by simp
qed

subsection \<open>The folder\<close>

lemma run_folder:
  "Http CreateFolder (folder_request (init_uploader (ustr ''t0ken'')) (ustr ''group1'')) \<in>
     set (fst (main ascii_db (stub_world s 200 (replicate 2048 0) href_body (Inr 201))
        (ustr ''Hello World'') (ustr ''t0ken'') (ustr ''group1'')))"
  by (simp add: run_simps ustr_def)

text \<open>
  C5. When the storage service answers the folder request with a status, the folder step
  succeeds exactly when the status is 201 or 409: then the run goes on and fetches the image
  (so a folder that exists already, 409, never stops it); with any other status the run
  prints the failure and ends with no fetch, no upload and no file.
\<close>

theorem folder_step:
  assumes "Http CreateFolder req \<in> set (fst (main db w l1 l2 l3))"
    and "http w CreateFolder req = Inr fr"
  shows "(Print FolderReady \<in> set (fst (main db w l1 l2 l3)) \<longleftrightarrow>
            status_code fr = 201 \<or> status_code fr = 409) \<and>
         call_count GetCatImage (fst (main db w l1 l2 l3)) =
           (if status_code fr = 201 \<or> status_code fr = 409 then 1 else 0) \<and>
         (status_code fr \<noteq> 201 \<and> status_code fr \<noteq> 409 \<longrightarrow>
            Print (FolderFailed (status_code fr)) \<in> set (fst (main db w l1 l2 l3)) \<and>
            call_count GetUploadLink (fst (main db w l1 l2 l3)) = 0 \<and>
            call_count UploadFile (fst (main db w l1 l2 l3)) = 0 \<and>
            dumps (fst (main db w l1 l2 l3)) = [])"
proof (cases rule: main_cases[of db l1 l2 l3 w])
  case missing
  then show ?thesis using assms by (simp add: trace_defs)
next
  case (folder_raised e)
  then show ?thesis using assms by (auto simp: trace_defs)
next
  case (folder_refused fr' tl res)
  then show ?thesis using assms by (auto simp: trace_defs call_count_def)
next
  case (image_raised fr' e)
  then show ?thesis using assms by (auto simp: trace_defs call_count_def)
next
  case (no_image fr' cr)
  then show ?thesis using assms by (auto simp: trace_defs call_count_def)
next
  case (upload_raised fr' cr tu e)
  then show ?thesis using assms upload_file_events[OF upload_raised(6)]
    by (auto simp: trace_defs call_count_def)
next
  case (uploaded fr' cr tu tl res)
  then show ?thesis using assms upload_file_events[OF uploaded(6)]
    by (auto simp: trace_defs call_count_def)
next
  case (not_uploaded fr' cr tu tl res)
  then show ?thesis using assms upload_file_events[OF not_uploaded(6)]
    by (auto simp: trace_defs call_count_def)
qed

theorem folder_step_witness:
  "Print FolderReady \<in>
     set (fst (main ascii_db (stub_world 409 200 (replicate 2048 0) href_body (Inr 201))
        (ustr ''Hello World'') (ustr ''t0ken'') (ustr ''group1''))) \<and>
   call_count GetCatImage
     (fst (main ascii_db (stub_world 409 200 (replicate 2048 0) href_body (Inr 201))
        (ustr ''Hello World'') (ustr ''t0ken'') (ustr ''group1''))) = 1 \<and>
   Print FolderReady \<notin>
     set (fst (main ascii_db (stub_world 403 200 (replicate 2048 0) href_body (Inr 201))
        (ustr ''Hello World'') (ustr ''t0ken'') (ustr ''group1''))) \<and>
   call_count GetCatImage
     (fst (main ascii_db (stub_world 403 200 (replicate 2048 0) href_body (Inr 201))
        (ustr ''Hello World'') (ustr ''t0ken'') (ustr ''group1''))) = 0 \<and>
   dumps
     (fst (main ascii_db (stub_world 403 200 (replicate 2048 0) href_body (Inr 201))
        (ustr ''Hello World'') (ustr ''t0ken'') (ustr ''group1''))) = []"
proof -
  have ans: "http (stub_world s 200 (replicate 2048 0) href_body (Inr 201)) CreateFolder
          (folder_request (init_uploader (ustr ''t0ken'')) (ustr ''group1'')) =
        Inr (stub_response s [] (Inr (PDict [])))" for s
    by (simp add: stub_world_def)
  show ?thesis
    using folder_step[OF run_folder ans, of 409] folder_step[OF run_folder ans, of 403]
    by (simp add: stub_response_def)
qed

subsection \<open>The image\<close>

lemma fetch_failed_counts:
  "call_count CreateFolder (fetch_trace t k g @ [Print ImageFailed]) = 1"
  "call_count GetCatImage (fetch_trace t k g @ [Print ImageFailed]) = 1"
  "call_count GetUploadLink (fetch_trace t k g @ [Print ImageFailed]) = 0"
  "call_count UploadFile (fetch_trace t k g @ [Print ImageFailed]) = 0"
  "dumps (fetch_trace t k g @ [Print ImageFailed]) = []"
  by (simp_all add: trace_defs call_count_def)

lemma run_fetch:
  "Http GetCatImage (cat_request (ustr ''Hello World'')) \<in>
     set (fst (main ascii_db (stub_world 201 s img href_body (Inr 201))
        (ustr ''Hello World'') (ustr ''t0ken'') (ustr ''group1'')))"
  by (simp add: run_simps ustr_def)

text \<open>
  C2, as the code has it. When the content service answers with a status other than 200, the
  run prints the failure and returns: no upload link is asked for, nothing is uploaded and
  no file is written. The folder request has been sent by then, once: \<open>main\<close> makes
  the folder before it fetches the image.
\<close>

theorem fetch_refused_stops_run:
  assumes "Http GetCatImage req \<in> set (fst (main db w l1 l2 l3))"
    and "http w GetCatImage req = Inr cr"
    and "status_code cr \<noteq> 200"
  shows "main db w l1 l2 l3 =
           (fetch_trace (strip db l1) (strip db l2) (strip db l3) @ [Print ImageFailed], Inr ()) \<and>
         call_count GetUploadLink (fst (main db w l1 l2 l3)) = 0 \<and>
         call_count UploadFile (fst (main db w l1 l2 l3)) = 0 \<and>
         dumps (fst (main db w l1 l2 l3)) = [] \<and>
         call_count CreateFolder (fst (main db w l1 l2 l3)) = 1"
proof -
  have "status_code cr \<noteq> 200 \<or> content cr = []" using assms(3) by simp
  from main_fetch_failed[OF assms(1,2) this] show ?thesis
    by (simp add: fetch_failed_counts)
qed

theorem fetch_refused_stops_run_witness:
  "main ascii_db (stub_world 201 404 [] href_body (Inr 201))
        (ustr ''Hello World'') (ustr ''t0ken'') (ustr ''group1'') =
     (fetch_trace (ustr ''Hello World'') (ustr ''t0ken'') (ustr ''group1'') @ [Print ImageFailed],
      Inr ()) \<and>
   call_count GetUploadLink (fst (main ascii_db (stub_world 201 404 [] href_body (Inr 201))
        (ustr ''Hello World'') (ustr ''t0ken'') (ustr ''group1''))) = 0 \<and>
   call_count UploadFile (fst (main ascii_db (stub_world 201 404 [] href_body (Inr 201))
        (ustr ''Hello World'') (ustr ''t0ken'') (ustr ''group1''))) = 0"
proof -
  have ans: "http (stub_world 201 404 [] href_body (Inr 201)) GetCatImage
          (cat_request (ustr ''Hello World'')) =
        Inr (stub_response 404 [] (Inl JSONDecodeError))"
    by (simp add: stub_world_def)
  have st: "status_code (stub_response 404 [] (Inl JSONDecodeError)) \<noteq> 200"
    by (simp add: stub_response_def)
  have s: "strip ascii_db (ustr ''Hello World'') = ustr ''Hello World''"
    "strip ascii_db (ustr ''t0ken'') = ustr ''t0ken''"
    "strip ascii_db (ustr ''group1'') = ustr ''group1''"
    by (simp_all add: strip_def rstrip_def lstrip_def ascii_db_def ustr_def)
  show ?thesis
    using fetch_refused_stops_run[OF run_fetch ans st] by (simp add: s fetch_failed_counts)
qed

text \<open>
  C2 as the specification words it (no storage call at all) does not hold: with the content
  service answering 404, the folder request is in the events of the run.
\<close>

theorem folder_created_before_fetch:
  "http (stub_world 201 404 [] href_body (Inr 201)) GetCatImage
      (cat_request (ustr ''Hello World'')) = Inr (stub_response 404 [] (Inl JSONDecodeError)) \<and>
   status_code (stub_response 404 [] (Inl JSONDecodeError)) = 404 \<and>
   Http GetCatImage (cat_request (ustr ''Hello World'')) \<in>
     set (fst (main ascii_db (stub_world 201 404 [] href_body (Inr 201))
        (ustr ''Hello World'') (ustr ''t0ken'') (ustr ''group1''))) \<and>
   call_count CreateFolder (fst (main ascii_db (stub_world 201 404 [] href_body (Inr 201))
        (ustr ''Hello World'') (ustr ''t0ken'') (ustr ''group1''))) = 1"
proof -
  have "call_count CreateFolder (fst (main ascii_db (stub_world 201 404 [] href_body (Inr 201))
        (ustr ''Hello World'') (ustr ''t0ken'') (ustr ''group1''))) = 1"
    by (simp add: run_simps ustr_def call_count_def)
  then show ?thesis
    using run_fetch[of 404 "[]"] by (simp add: stub_world_def stub_response_def)
qed

text \<open>
  C9. When the content service answers 200 with an empty body, \<open>get_cat_image\<close> returns
  the empty byte string, and \<open>main\<close> takes it for a failed fetch: it prints the failure
  and returns before asking for an upload link or uploading. Status 200 alone does not make
  the fetch succeed.
\<close>

theorem empty_image_stops_run:
  assumes "Http GetCatImage req \<in> set (fst (main db w l1 l2 l3))"
    and "http w GetCatImage req = Inr cr"
    and "status_code cr = 200" and "content cr = []"
  shows "get_cat_image w (strip db l1) = ([Http GetCatImage req], Inr (Some [])) \<and>
         main db w l1 l2 l3 =
           (fetch_trace (strip db l1) (strip db l2) (strip db l3) @ [Print ImageFailed], Inr ()) \<and>
         call_count GetUploadLink (fst (main db w l1 l2 l3)) = 0 \<and>
         call_count UploadFile (fst (main db w l1 l2 l3)) = 0 \<and>
         dumps (fst (main db w l1 l2 l3)) = []"
proof -
  have "status_code cr \<noteq> 200 \<or> content cr = []" using assms(4) by simp
  from main_fetch_failed[OF assms(1,2) this] show ?thesis
    using assms(2,3,4) by (simp add: fetch_failed_counts get_cat_image_eq)
qed

theorem empty_image_stops_run_witness:
  "get_cat_image (stub_world 201 200 [] href_body (Inr 201)) (ustr ''Hello World'') =
     ([Http GetCatImage (cat_request (ustr ''Hello World''))], Inr (Some [])) \<and>
   main ascii_db (stub_world 201 200 [] href_body (Inr 201))
        (ustr ''Hello World'') (ustr ''t0ken'') (ustr ''group1'') =
     (fetch_trace (ustr ''Hello World'') (ustr ''t0ken'') (ustr ''group1'') @ [Print ImageFailed],
      Inr ()) \<and>
   call_count GetUploadLink (fst (main ascii_db (stub_world 201 200 [] href_body (Inr 201))
        (ustr ''Hello World'') (ustr ''t0ken'') (ustr ''group1''))) = 0"
proof -
  have ans: "http (stub_world 201 200 [] href_body (Inr 201)) GetCatImage
          (cat_request (ustr ''Hello World'')) =
        Inr (stub_response 200 [] (Inl JSONDecodeError))"
    by (simp add: stub_world_def)
  have st: "status_code (stub_response 200 [] (Inl JSONDecodeError)) = 200"
    "content (stub_response 200 [] (Inl JSONDecodeError)) = []"
    by (simp_all add: stub_response_def)
  have s: "strip ascii_db (ustr ''Hello World'') = ustr ''Hello World''"
    "strip ascii_db (ustr ''t0ken'') = ustr ''t0ken''"
    "strip ascii_db (ustr ''group1'') = ustr ''group1''"
    by (simp_all add: strip_def rstrip_def lstrip_def ascii_db_def ustr_def)
  show ?thesis
    using empty_image_stops_run[OF run_fetch ans st] by (simp add: s fetch_failed_counts)
qed

subsection \<open>The upload\<close>

lemma stub_link:
  "snd (get_upload_link (stub_world fs cs img (PDict kv) ua) self p) =
     Inr (dict_get kv (ustr ''href''))"
  "snd (get_upload_link (stub_world fs cs img (PList xs) ua) self p) = Inl AttributeError"
  by (simp_all add: get_upload_link_eq stub_world_def stub_response_def)

lemma stub_upload:
  "http (stub_world fs cs img lb (Inr s)) UploadFile rq =
     Inr (stub_response s [] (Inl JSONDecodeError))"
  "http (stub_world fs cs img lb (Inl e)) UploadFile rq = Inl e"
  by (simp_all add: stub_world_def)

lemma href_body_target:
  "href_body = PDict [(ustr ''href'', PStr (ustr ''https://uploader.example/target''))]"
  "dict_get [(ustr ''href'', PStr (ustr ''https://uploader.example/target''))] (ustr ''href'') =
     PStr (ustr ''https://uploader.example/target'')"
  "ustr ''https://uploader.example/target'' \<noteq> []"
  "dict_get [] (ustr ''href'') = PNone"
  by (simp_all add: href_body_def dict_get_def ustr_def)

text \<open>
  C4, as the code has it. When the upload link resolves to \<open>None\<close> (or to any other
  value that is not true, such as the empty string), no upload request is sent and
  \<open>upload_file\<close> returns \<open>False\<close>. Otherwise the upload request is sent, and when it
  is answered \<open>upload_file\<close> returns \<open>True\<close> exactly for status 201 and \<open>False\<close>
  for every other status. An exception of a request (a network error) or of reading the link
  is not turned into \<open>False\<close>: it goes on to the caller.
\<close>

theorem upload_file_outcomes:
  "(snd (get_upload_link w self p) = Inr PNone \<longrightarrow>
      upload_file w self p c = ([Http GetUploadLink (link_request self p)], Inr False) \<and>
      call_count UploadFile (fst (upload_file w self p c)) = 0) \<and>
   (snd (get_upload_link w self p) = Inr href \<and> \<not> truthy href \<longrightarrow>
      upload_file w self p c = ([Http GetUploadLink (link_request self p)], Inr False)) \<and>
   (snd (get_upload_link w self p) = Inr href \<and> truthy href \<and>
    http w UploadFile (upload_request href c) = Inr r \<longrightarrow>
      upload_file w self p c =
        ([Http GetUploadLink (link_request self p), Http UploadFile (upload_request href c)],
         Inr (status_code r = 201))) \<and>
   (snd (get_upload_link w self p) = Inr href \<and> truthy href \<and>
    http w UploadFile (upload_request href c) = Inl e \<longrightarrow>
      upload_file w self p c =
        ([Http GetUploadLink (link_request self p), Http UploadFile (upload_request href c)],
         Inl e)) \<and>
   (snd (get_upload_link w self p) = Inl e \<longrightarrow>
      upload_file w self p c = ([Http GetUploadLink (link_request self p)], Inl e)) \<and>
   (snd (upload_file w self p c) = Inr True \<longleftrightarrow>
      (\<exists>h a. snd (get_upload_link w self p) = Inr h \<and> truthy h \<and>
         http w UploadFile (upload_request h c) = Inr a \<and> status_code a = 201))"
proof -
  have success: "snd (upload_file w self p c) = Inr True \<longleftrightarrow>
      (\<exists>h a. snd (get_upload_link w self p) = Inr h \<and> truthy h \<and>
         http w UploadFile (upload_request h c) = Inr a \<and> status_code a = 201)"
  proof (cases "snd (get_upload_link w self p)")
    case (Inl x)
    then show ?thesis by (simp add: upload_file_eq)
  next
    case link: (Inr h)
    show ?thesis
    proof (cases "truthy h")
      case False
      with link show ?thesis by (simp add: upload_file_eq)
    next
      case True
      with link show ?thesis
        by (cases "http w UploadFile (upload_request h c)") (simp_all add: upload_file_eq)
    qed
  qed
  have "\<not> truthy PNone" by simp
  then show ?thesis
    using success by (simp add: upload_file_eq call_count_def)
qed

theorem upload_file_outcomes_witness:
  "upload_file (stub_world 201 200 [65] (PDict []) (Inr 201)) (init_uploader (ustr ''t0ken''))
      (ustr ''group1/a.jpg'') [65] =
     ([Http GetUploadLink (link_request (init_uploader (ustr ''t0ken'')) (ustr ''group1/a.jpg''))],
      Inr False) \<and>
   snd (upload_file (stub_world 201 200 [65] href_body (Inr 201)) (init_uploader (ustr ''t0ken''))
      (ustr ''group1/a.jpg'') [65]) = Inr True \<and>
   snd (upload_file (stub_world 201 200 [65] href_body (Inr 500)) (init_uploader (ustr ''t0ken''))
      (ustr ''group1/a.jpg'') [65]) = Inr False \<and>
   snd (upload_file (stub_world 201 200 [65] href_body (Inl RequestException))
      (init_uploader (ustr ''t0ken'')) (ustr ''group1/a.jpg'') [65]) = Inl RequestException \<and>
   upload_file (stub_world 201 200 [65] (PList []) (Inr 201)) (init_uploader (ustr ''t0ken''))
      (ustr ''group1/a.jpg'') [65] =
     ([Http GetUploadLink (link_request (init_uploader (ustr ''t0ken'')) (ustr ''group1/a.jpg''))],
      Inl AttributeError)"
  using
    upload_file_outcomes[of "stub_world 201 200 [65] (PDict []) (Inr 201)"
      "init_uploader (ustr ''t0ken'')" "ustr ''group1/a.jpg''" "[65]"]
    upload_file_outcomes[of "stub_world 201 200 [65] href_body (Inr 201)"
      "init_uploader (ustr ''t0ken'')" "ustr ''group1/a.jpg''" "[65]"
      "PStr (ustr ''https://uploader.example/target'')"
      "stub_response 201 [] (Inl JSONDecodeError)"]
    upload_file_outcomes[of "stub_world 201 200 [65] href_body (Inr 500)"
      "init_uploader (ustr ''t0ken'')" "ustr ''group1/a.jpg''" "[65]"
      "PStr (ustr ''https://uploader.example/target'')"
      "stub_response 500 [] (Inl JSONDecodeError)"]
    upload_file_outcomes[of "stub_world 201 200 [65] href_body (Inl RequestException)"
      "init_uploader (ustr ''t0ken'')" "ustr ''group1/a.jpg''" "[65]"
      "PStr (ustr ''https://uploader.example/target'')" _ RequestException]
    upload_file_outcomes[of "stub_world 201 200 [65] (PList []) (Inr 201)"
      "init_uploader (ustr ''t0ken'')" "ustr ''group1/a.jpg''" "[65]" _ _ AttributeError]
  by (simp add: stub_link stub_upload href_body_target stub_response_def)

text \<open>
  C4 as the specification words it (a network error is reported as the failure value) does
  not hold: when the upload request raises, \<open>upload_file\<close> returns nothing, and
  \<open>main\<close>, which catches nothing, ends with that exception and writes no record.
\<close>

theorem upload_exception_is_not_false:
  "http (stub_world 201 200 [65] href_body (Inl RequestException)) UploadFile
      (upload_request (PStr (ustr ''https://uploader.example/target'')) [65]) =
     Inl RequestException \<and>
   upload_file (stub_world 201 200 [65] href_body (Inl RequestException))
      (init_uploader (ustr ''t0ken'')) (ustr ''group1/a.jpg'') [65] =
     ([Http GetUploadLink (link_request (init_uploader (ustr ''t0ken'')) (ustr ''group1/a.jpg'')),
       Http UploadFile (upload_request (PStr (ustr ''https://uploader.example/target'')) [65])],
      Inl RequestException) \<and>
   snd (main ascii_db (stub_world 201 200 [65] href_body (Inl RequestException))
      (ustr ''a'') (ustr ''t0ken'') (ustr ''group1'')) = Inl RequestException \<and>
   dumps (fst (main ascii_db (stub_world 201 200 [65] href_body (Inl RequestException))
      (ustr ''a'') (ustr ''t0ken'') (ustr ''group1''))) = []"
proof -
  have u: "upload_file (stub_world 201 200 [65] href_body (Inl RequestException))
      (init_uploader (ustr ''t0ken'')) (ustr ''group1/a.jpg'') [65] =
     ([Http GetUploadLink (link_request (init_uploader (ustr ''t0ken'')) (ustr ''group1/a.jpg'')),
       Http UploadFile (upload_request (PStr (ustr ''https://uploader.example/target'')) [65])],
      Inl RequestException)"
    by (simp add: upload_file_eq stub_link stub_upload href_body_target)
  have m: "snd (main ascii_db (stub_world 201 200 [65] href_body (Inl RequestException))
      (ustr ''a'') (ustr ''t0ken'') (ustr ''group1'')) = Inl RequestException"
    "dumps (fst (main ascii_db (stub_world 201 200 [65] href_body (Inl RequestException))
      (ustr ''a'') (ustr ''t0ken'') (ustr ''group1''))) = []"
    by (simp_all add: run_simps ustr_def)
  show ?thesis using u m by (simp add: stub_upload)
qed

end
